theory Spec2Isabelle
  imports Complex_Main "HOL-Library.Word"
begin

unbundle bit_operations_syntax

section \<open>Conventions of the embedding\<close>

text \<open>
  The development embeds two files of senlib: the BME280 driver
  (\<^verbatim>\<open>senlib/i2c/sensors/bmex.py\<close>) and the acquisition loop of the command line
  applications (\<^verbatim>\<open>senlib/cli.py\<close>).

  \<^item> Python integers are \<open>int\<close>; bytes delivered by the I2C controller are \<open>8 word\<close>.
  \<^item> A Python float is a \<open>real\<close>, and every float operation rounds its exact result with
    a rounding function that is a parameter of the embedding; infinities and NaN are
    not represented.
  \<^item> An exception is a value \<open>Inl e\<close> of the sum type \<open>error + 'a\<close>.
  \<^item> Mutation of \<^verbatim>\<open>self\<close> is explicit state passing on the record \<open>bme280\<close>.
\<close>

datatype error =
    StructError          \<comment> \<open>\<^verbatim>\<open>struct.error\<close>: buffer of the wrong size\<close>
  | ValueError           \<comment> \<open>wrong number of values in a tuple assignment\<close>
  | IndexError           \<comment> \<open>list index out of range\<close>
  | ZeroDivisionError    \<comment> \<open>float division by zero\<close>
  | OSError              \<comment> \<open>failure of the I2C transaction or of a network sink\<close>

type_synonym byte = "8 word"

definition and_then :: "error + 'a \<Rightarrow> ('a \<Rightarrow> error + 'b) \<Rightarrow> error + 'b" where
  "and_then m f = (case m of Inl e \<Rightarrow> Inl e | Inr x \<Rightarrow> f x)"

section \<open>The I2C controller\<close>

text \<open>
  The controller class (\<^verbatim>\<open>senlib.core.i2c\<close>) is a collaborator of the driver. The driver
  uses two of its methods; each takes the device address and a register, and may raise.
\<close>

record i2c_ctrl =
  read_i2c_block_data :: "int \<Rightarrow> int \<Rightarrow> nat \<Rightarrow> error + byte list"
  write_byte_data :: "int \<Rightarrow> int \<Rightarrow> int \<Rightarrow> error + unit"

section \<open>The BME280 driver\<close>

record bme280 =
  addr :: int
  dig_T1 :: int
  dig_T2 :: int
  dig_T3 :: int
  dig_P1 :: int
  dig_P2 :: int
  dig_P3 :: int
  dig_P4 :: int
  dig_P5 :: int
  dig_P6 :: int
  dig_P7 :: int
  dig_P8 :: int
  dig_P9 :: int
  dig_H1 :: int
  dig_H2 :: int
  dig_H3 :: int
  dig_H4 :: int
  dig_H5 :: int
  dig_H6 :: int
  t_fine :: real
  priv_temperature :: real
  priv_humidity :: real
  priv_pressure :: real
  osrs_h :: int
  osrs_t :: int
  osrs_p :: int
  power_mode :: int
  filter_setting :: int
  t_sb :: int

definition DEFAULT_ADDR :: int where "DEFAULT_ADDR = 0x77"
definition REG_TEMP :: int where "REG_TEMP = 0xFA"
definition REG_PRESS :: int where "REG_PRESS = 0xF7"
definition REG_HUM :: int where "REG_HUM = 0xFD"
definition REG_CONFIG :: int where "REG_CONFIG = 0xF5"
definition REG_CTRL_MEAS :: int where "REG_CTRL_MEAS = 0xF4"
definition REG_CTRL_HUM :: int where "REG_CTRL_HUM = 0xF2"

subsection \<open>Decoding with \<^verbatim>\<open>struct.unpack\<close>\<close>

text \<open>
  The format characters of \<^verbatim>\<open>struct\<close> used by the driver, in little-endian order
  (\<^verbatim>\<open><\<close>): \<^verbatim>\<open>H\<close> is an unsigned and \<^verbatim>\<open>h\<close> a signed 16-bit integer, \<^verbatim>\<open>B\<close> an unsigned and
  \<^verbatim>\<open>b\<close> a signed byte.
\<close>

definition unpack_H :: "byte \<Rightarrow> byte \<Rightarrow> int" where
  "unpack_H lo hi = uint (push_bit 8 (ucast hi) OR ucast lo :: 16 word)"

definition unpack_h :: "byte \<Rightarrow> byte \<Rightarrow> int" where
  "unpack_h lo hi = sint (push_bit 8 (ucast hi) OR ucast lo :: 16 word)"

definition unpack_B :: "byte \<Rightarrow> int" where
  "unpack_B x = uint x"

definition unpack_b :: "byte \<Rightarrow> int" where
  "unpack_b x = sint x"

text \<open>\<^verbatim>\<open>struct.unpack('<HhhHhhhhhhhhBB', ...)\<close>: 26 bytes, 14 values.\<close>

definition unpack_HhhHhhhhhhhhBB :: "byte list \<Rightarrow> error + int list" where
  "unpack_HhhHhhhhhhhhBB bs =
     (if length bs \<noteq> 26 then Inl StructError
      else Inr [unpack_H (bs ! 0) (bs ! 1),
                unpack_h (bs ! 2) (bs ! 3),
                unpack_h (bs ! 4) (bs ! 5),
                unpack_H (bs ! 6) (bs ! 7),
                unpack_h (bs ! 8) (bs ! 9),
                unpack_h (bs ! 10) (bs ! 11),
                unpack_h (bs ! 12) (bs ! 13),
                unpack_h (bs ! 14) (bs ! 15),
                unpack_h (bs ! 16) (bs ! 17),
                unpack_h (bs ! 18) (bs ! 19),
                unpack_h (bs ! 20) (bs ! 21),
                unpack_h (bs ! 22) (bs ! 23),
                unpack_B (bs ! 24),
                unpack_B (bs ! 25)])"

text \<open>\<^verbatim>\<open>struct.unpack('<hB', ...)\<close>: 3 bytes, 2 values.\<close>

definition unpack_hB :: "byte list \<Rightarrow> error + int \<times> int" where
  "unpack_hB bs =
     (if length bs \<noteq> 3 then Inl StructError
      else Inr (unpack_h (bs ! 0) (bs ! 1), unpack_B (bs ! 2)))"

text \<open>Indexing a list of bytes with a non-negative literal index.\<close>

definition item :: "byte list \<Rightarrow> nat \<Rightarrow> error + byte" where
  "item bs i = (if i < length bs then Inr (bs ! i) else Inl IndexError)"

subsection \<open>Reading the calibration data\<close>

definition read_calibration_data :: "i2c_ctrl \<Rightarrow> bme280 \<Rightarrow> error + bme280" where
  "read_calibration_data ctrl s =
     and_then (read_i2c_block_data ctrl (addr s) 0x88 26) (\<lambda>dig_88_A1.
     and_then (unpack_HhhHhhhhhhhhBB dig_88_A1) (\<lambda>v.
     let s = s\<lparr>dig_T1 := v ! 0, dig_T2 := v ! 1, dig_T3 := v ! 2,
                dig_P1 := v ! 3, dig_P2 := v ! 4, dig_P3 := v ! 5, dig_P4 := v ! 6,
                dig_P5 := v ! 7, dig_P6 := v ! 8, dig_P7 := v ! 9, dig_P8 := v ! 10,
                dig_P9 := v ! 11, dig_H1 := v ! 13\<rparr> in
     and_then (read_i2c_block_data ctrl (addr s) 0xE1 7) (\<lambda>dig_e1_e7.
     and_then (unpack_hB (take 3 dig_e1_e7)) (\<lambda>(h2, h3).
     let s = s\<lparr>dig_H2 := h2, dig_H3 := h3\<rparr> in
     and_then (item dig_e1_e7 3) (\<lambda>e4.
     let e4_sign = unpack_b e4 in
     and_then (item dig_e1_e7 4) (\<lambda>e5.
     let s = s\<lparr>dig_H4 := push_bit 4 e4_sign OR (uint e5 AND 0xF)\<rparr> in
     and_then (item dig_e1_e7 5) (\<lambda>e6.
     let e6_sign = unpack_b e6 in
     let s = s\<lparr>dig_H5 := push_bit 4 e6_sign OR drop_bit 4 (uint e5)\<rparr> in
     and_then (item dig_e1_e7 6) (\<lambda>e7.
     Inr (s\<lparr>dig_H6 := unpack_b e7\<rparr>)))))))))"

subsection \<open>Reading the raw sample\<close>

fun unpack3 :: "byte list \<Rightarrow> error + int \<times> int \<times> int" where
  "unpack3 [a, b, c] = Inr (uint a, uint b, uint c)"
| "unpack3 _ = Inl ValueError"

fun unpack2 :: "byte list \<Rightarrow> error + int \<times> int" where
  "unpack2 [a, b] = Inr (uint a, uint b)"
| "unpack2 _ = Inl ValueError"

definition read_raw_sensor_data :: "i2c_ctrl \<Rightarrow> bme280 \<Rightarrow> error + int \<times> int \<times> int" where
  "read_raw_sensor_data ctrl s =
     and_then (and_then (read_i2c_block_data ctrl (addr s) REG_PRESS 3) unpack3)
       (\<lambda>(press_msb, press_lsb, press_xlsb).
     and_then (and_then (read_i2c_block_data ctrl (addr s) REG_TEMP 3) unpack3)
       (\<lambda>(temp_msb, temp_lsb, temp_xlsb).
     and_then (and_then (read_i2c_block_data ctrl (addr s) REG_HUM 2) unpack2)
       (\<lambda>(hum_msb, hum_lsb).
     let adc_p = push_bit 12 press_msb OR push_bit 4 press_lsb OR drop_bit 4 press_xlsb;
         adc_t = push_bit 12 temp_msb OR push_bit 4 temp_lsb OR drop_bit 4 temp_xlsb;
         adc_h = push_bit 8 hum_msb OR hum_lsb
     in Inr (adc_p, adc_t, adc_h))))"

subsection \<open>Float arithmetic\<close>

text \<open>
  A Python float is a double. Every arithmetic operation on floats returns the exact
  result rounded to the format. The rounding is a parameter \<open>rnd\<close> of the embedding: for
  the doubles of the program it is rounding to the nearest double, and \<open>exact\<close> below is
  the rounding that changes nothing. What is proved for every \<open>rnd\<close> holds for the
  program, whichever values rounding produces. The integers of the driver (calibration
  constants, ADC counts, \<open>t_fine\<close>) are far below \<open>2 ^ 53\<close> in absolute value, so their
  conversion to a float is exact and written \<open>real_of_int\<close>.
\<close>

type_synonym rounding = "real \<Rightarrow> real"

definition fadd :: "rounding \<Rightarrow> real \<Rightarrow> real \<Rightarrow> real" where
  "fadd rnd x y = rnd (x + y)"

definition fsub :: "rounding \<Rightarrow> real \<Rightarrow> real \<Rightarrow> real" where
  "fsub rnd x y = rnd (x - y)"

definition fmul :: "rounding \<Rightarrow> real \<Rightarrow> real \<Rightarrow> real" where
  "fmul rnd x y = rnd (x * y)"

text \<open>Division by a non-zero literal, which cannot raise.\<close>

definition fdiv :: "rounding \<Rightarrow> real \<Rightarrow> real \<Rightarrow> real" where
  "fdiv rnd x y = rnd (x / y)"

text \<open>
  Division by a computed value: float division raises \<^verbatim>\<open>ZeroDivisionError\<close> when the
  divisor is zero. The one such division of the driver is in the pressure compensation.
\<close>

definition truediv :: "rounding \<Rightarrow> real \<Rightarrow> real \<Rightarrow> error + real" where
  "truediv rnd x y = (if y = 0 then Inl ZeroDivisionError else Inr (fdiv rnd x y))"

definition exact :: rounding where
  "exact x = x"

subsection \<open>Compensation\<close>

text \<open>\<^verbatim>\<open>int(x)\<close> on a float truncates towards zero.\<close>

definition py_int :: "real \<Rightarrow> int" where
  "py_int x = (if x < 0 then \<lceil>x\<rceil> else \<lfloor>x\<rfloor>)"

definition compensate_temperature :: "rounding \<Rightarrow> bme280 \<Rightarrow> int \<Rightarrow> real \<times> bme280" where
  "compensate_temperature rnd s adc_t =
     (let UT = real_of_int adc_t;
          var1 = fmul rnd (fsub rnd (fdiv rnd UT 16384)
                                    (fdiv rnd (real_of_int (dig_T1 s)) 1024))
                          (real_of_int (dig_T2 s));
          var2 = fmul rnd (fmul rnd (fsub rnd (fdiv rnd UT 131072)
                                              (fdiv rnd (real_of_int (dig_T1 s)) 8192))
                                    (fsub rnd (fdiv rnd UT 131072)
                                              (fdiv rnd (real_of_int (dig_T1 s)) 8192)))
                          (real_of_int (dig_T3 s));
          s = s\<lparr>t_fine := real_of_int (py_int (fadd rnd var1 var2))\<rparr>;
          temp = fdiv rnd (fadd rnd var1 var2) 5120
      in (temp, s))"

definition compensate_pressure :: "rounding \<Rightarrow> bme280 \<Rightarrow> int \<Rightarrow> error + real" where
  "compensate_pressure rnd s adc_p =
     (let var1 = fsub rnd (fdiv rnd (t_fine s) 2) 64000;
          var2 = fdiv rnd (fmul rnd (fmul rnd var1 var1) (real_of_int (dig_P6 s))) 32768;
          var2 = fadd rnd var2 (fmul rnd (fmul rnd var1 (real_of_int (dig_P5 s))) 2);
          var2 = fadd rnd (fdiv rnd var2 4) (fmul rnd (real_of_int (dig_P4 s)) 65536);
          var1 = fdiv rnd
                   (fadd rnd
                      (fdiv rnd (fmul rnd (fmul rnd (real_of_int (dig_P3 s)) var1) var1) 524288)
                      (fmul rnd (real_of_int (dig_P2 s)) var1))
                   524288;
          var1 = fmul rnd (fadd rnd 1 (fdiv rnd var1 32768)) (real_of_int (dig_P1 s))
      in if var1 = 0 then Inr 0
         else
           let p = fsub rnd 1048576 (real_of_int adc_p) in
           and_then (truediv rnd (fmul rnd (fsub rnd p (fdiv rnd var2 4096)) 6250) var1) (\<lambda>p.
           let var1 = fdiv rnd (fmul rnd (fmul rnd (real_of_int (dig_P9 s)) p) p) 2147483648;
               var2 = fdiv rnd (fmul rnd p (real_of_int (dig_P8 s))) 32768;
               p = fadd rnd p (fdiv rnd (fadd rnd (fadd rnd var1 var2) (real_of_int (dig_P7 s))) 16)
           in Inr p))"

text \<open>
  The value of \<^verbatim>\<open>var1\<close> at the test \<^verbatim>\<open>if var1 == 0\<close> of the pressure compensation, computed
  with the same roundings: the factor by which the pressure is divided afterwards.
\<close>

definition pressure_var1 :: "rounding \<Rightarrow> bme280 \<Rightarrow> real" where
  "pressure_var1 rnd s =
     (let var1 = fsub rnd (fdiv rnd (t_fine s) 2) 64000;
          var1 = fdiv rnd
                   (fadd rnd
                      (fdiv rnd (fmul rnd (fmul rnd (real_of_int (dig_P3 s)) var1) var1) 524288)
                      (fmul rnd (real_of_int (dig_P2 s)) var1))
                   524288
      in fmul rnd (fadd rnd 1 (fdiv rnd var1 32768)) (real_of_int (dig_P1 s)))"

text \<open>The value of \<^verbatim>\<open>h\<close> in the humidity compensation before it is clamped.\<close>

definition humidity_raw :: "rounding \<Rightarrow> bme280 \<Rightarrow> int \<Rightarrow> real" where
  "humidity_raw rnd s adc_h =
     (let h = fsub rnd (t_fine s) 76800;
          h = fmul rnd
                (fsub rnd (real_of_int adc_h)
                   (fadd rnd (fmul rnd (real_of_int (dig_H4 s)) 64)
                             (fmul rnd (fdiv rnd (real_of_int (dig_H5 s)) 16384) h)))
                (fmul rnd (fdiv rnd (real_of_int (dig_H2 s)) 65536)
                   (fadd rnd 1
                      (fmul rnd (fmul rnd (fdiv rnd (real_of_int (dig_H6 s)) 67108864) h)
                         (fadd rnd 1 (fmul rnd (fdiv rnd (real_of_int (dig_H3 s)) 67108864) h)))))
      in fmul rnd h (fsub rnd 1 (fdiv rnd (fmul rnd (real_of_int (dig_H1 s)) h) 524288)))"

definition compensate_humidity :: "rounding \<Rightarrow> bme280 \<Rightarrow> int \<Rightarrow> real" where
  "compensate_humidity rnd s adc_h =
     (let h = fsub rnd (t_fine s) 76800;
          h = fmul rnd
                (fsub rnd (real_of_int adc_h)
                   (fadd rnd (fmul rnd (real_of_int (dig_H4 s)) 64)
                             (fmul rnd (fdiv rnd (real_of_int (dig_H5 s)) 16384) h)))
                (fmul rnd (fdiv rnd (real_of_int (dig_H2 s)) 65536)
                   (fadd rnd 1
                      (fmul rnd (fmul rnd (fdiv rnd (real_of_int (dig_H6 s)) 67108864) h)
                         (fadd rnd 1 (fmul rnd (fdiv rnd (real_of_int (dig_H3 s)) 67108864) h)))));
          h = fmul rnd h (fsub rnd 1 (fdiv rnd (fmul rnd (real_of_int (dig_H1 s)) h) 524288))
      in if h > 100 then 100 else if h < 0 then 0 else h)"

subsection \<open>Configuration and construction\<close>

definition set_meas :: "i2c_ctrl \<Rightarrow> bme280 \<Rightarrow> error + unit" where
  "set_meas ctrl s =
     (let settings = 0;
          settings = settings OR push_bit 5 (osrs_t s);
          settings = settings OR push_bit 2 (osrs_p s);
          settings = settings OR power_mode s
      in write_byte_data ctrl (addr s) REG_CTRL_MEAS settings)"

definition set_hum :: "i2c_ctrl \<Rightarrow> bme280 \<Rightarrow> error + unit" where
  "set_hum ctrl s =
     (let settings = 0;
          settings = settings OR osrs_h s
      in write_byte_data ctrl (addr s) REG_CTRL_HUM settings)"

definition set_meas_and_hum :: "i2c_ctrl \<Rightarrow> bme280 \<Rightarrow> error + unit" where
  "set_meas_and_hum ctrl s = and_then (set_hum ctrl s) (\<lambda>_. set_meas ctrl s)"

definition set_config :: "i2c_ctrl \<Rightarrow> bme280 \<Rightarrow> error + unit" where
  "set_config ctrl s =
     (let config = 0;
          config = config OR push_bit 5 (t_sb s);
          config = config OR push_bit 2 (filter_setting s)
      in write_byte_data ctrl (addr s) REG_CONFIG config)"

text \<open>
  \<^verbatim>\<open>__init__\<close>. The attributes \<^verbatim>\<open>osrs_h\<close> to \<^verbatim>\<open>t_sb\<close> do not exist before they are
  assigned and nothing reads them before; the record holds 0 for them until then.
\<close>

definition init_fields :: "int \<Rightarrow> bme280" where
  "init_fields a =
     \<lparr>addr = a,
      dig_T1 = 0, dig_T2 = 0, dig_T3 = 0,
      dig_P1 = 0, dig_P2 = 0, dig_P3 = 0, dig_P4 = 0, dig_P5 = 0,
      dig_P6 = 0, dig_P7 = 0, dig_P8 = 0, dig_P9 = 0,
      dig_H1 = 0, dig_H2 = 0, dig_H3 = 0, dig_H4 = 0, dig_H5 = 0, dig_H6 = 0,
      t_fine = 0,
      priv_temperature = 0, priv_humidity = 0, priv_pressure = 0,
      osrs_h = 0, osrs_t = 0, osrs_p = 0, power_mode = 0,
      filter_setting = 0, t_sb = 0\<rparr>"

definition init :: "i2c_ctrl \<Rightarrow> int \<Rightarrow> error + bme280" where
  "init ctrl a =
     (let s = init_fields a
      in and_then (read_calibration_data ctrl s) (\<lambda>s.
         let s = s\<lparr>osrs_h := 1, osrs_t := 1, osrs_p := 1, power_mode := 3,
                    filter_setting := 0, t_sb := 5\<rparr>
         in and_then (set_meas_and_hum ctrl s) (\<lambda>_.
            and_then (set_config ctrl s) (\<lambda>_. Inr s))))"

subsection \<open>The public operations\<close>

type_synonym measurement = "string \<rightharpoonup> real"

definition read_temperature ::
  "rounding \<Rightarrow> i2c_ctrl \<Rightarrow> bme280 \<Rightarrow> error + real \<times> bme280" where
  "read_temperature rnd ctrl s =
     and_then (read_raw_sensor_data ctrl s) (\<lambda>(adc_p, adc_t, adc_h).
     Inr (compensate_temperature rnd s adc_t))"

definition read_pressure ::
  "rounding \<Rightarrow> i2c_ctrl \<Rightarrow> bme280 \<Rightarrow> error + real \<times> bme280" where
  "read_pressure rnd ctrl s =
     and_then (read_raw_sensor_data ctrl s) (\<lambda>(adc_p, adc_t, adc_h).
     let (_, s) = compensate_temperature rnd s adc_t in
     and_then (compensate_pressure rnd s adc_p) (\<lambda>p. Inr (p, s)))"

definition read_humidity ::
  "rounding \<Rightarrow> i2c_ctrl \<Rightarrow> bme280 \<Rightarrow> error + real \<times> bme280" where
  "read_humidity rnd ctrl s =
     and_then (read_raw_sensor_data ctrl s) (\<lambda>(adc_p, adc_t, adc_h).
     let (_, s) = compensate_temperature rnd s adc_t in
     Inr (compensate_humidity rnd s adc_h, s))"

definition measure_bme280 ::
  "rounding \<Rightarrow> i2c_ctrl \<Rightarrow> bme280 \<Rightarrow> error + measurement \<times> bme280" where
  "measure_bme280 rnd ctrl s =
     and_then (read_raw_sensor_data ctrl s) (\<lambda>(adc_p, adc_t, adc_h).
     let (t, s) = compensate_temperature rnd s adc_t;
         s = s\<lparr>priv_temperature := t\<rparr> in
     and_then (compensate_pressure rnd s adc_p) (\<lambda>p.
     let s = s\<lparr>priv_pressure := p\<rparr>;
         s = s\<lparr>priv_humidity := compensate_humidity rnd s adc_h\<rparr>
     in Inr ([''temperature'' \<mapsto> priv_temperature s,
              ''humidity'' \<mapsto> priv_humidity s,
              ''pressure'' \<mapsto> priv_pressure s], s)))"

definition temperature :: "bme280 \<Rightarrow> real" where
  "temperature s = priv_temperature s"

definition pressure :: "bme280 \<Rightarrow> real" where
  "pressure s = priv_pressure s"

definition humidity :: "bme280 \<Rightarrow> real" where
  "humidity s = priv_humidity s"

section \<open>The mock sensor\<close>

text \<open>\<^verbatim>\<open>senlib/mock.py\<close>: a sensor without bus access; \<^verbatim>\<open>measure\<close> returns constants.\<close>

definition mock_measure :: measurement where
  "mock_measure = [''temperature'' \<mapsto> 285 / 10, ''humidity'' \<mapsto> 252 / 10]"

section \<open>The acquisition loop\<close>

text \<open>
  \<^verbatim>\<open>Application\<close> in \<^verbatim>\<open>senlib/cli.py\<close>. The parts an application is built from:
  \<^item> \<open>sensor_measure\<close>: \<^verbatim>\<open>self._sensor.measure()\<close>, which returns the data or raises, and
    changes the state \<open>'sn\<close> of the sensor;
  \<^item> \<open>handle_data\<close>: \<^verbatim>\<open>self._handle_data(data)\<close>, overridden by the subclasses, which
    returns or raises, and changes the state \<open>'sk\<close> of the output side;
  \<^item> \<open>poll\<close>: \<^verbatim>\<open>self._args.poll\<close>, an integer, or \<open>None\<close> where the argument parser
    leaves Python's \<^verbatim>\<open>None\<close>;
  \<^item> \<open>interval\<close>: \<^verbatim>\<open>self._args.interval\<close>.
\<close>

record ('sn, 'sk, 'd) application =
  sensor_measure :: "'sn \<Rightarrow> (error + 'd) \<times> 'sn"
  handle_data :: "'d \<Rightarrow> 'sk \<Rightarrow> error option \<times> 'sk"
  poll :: "int option"
  interval :: real

text \<open>
  The state of a running application. \<open>scheduled\<close> holds the calls of \<^verbatim>\<open>callback\<close> the
  event loop has been asked to make, oldest first, each with its delay and its argument;
  \<open>stopped\<close> is set by \<^verbatim>\<open>loop.stop()\<close>; \<open>unhandled\<close> collects the exceptions that left a
  callback and went to the exception handler of the event loop. The fields
  \<open>measure_calls\<close> and \<open>handled\<close> record what happened: the number of calls of
  \<^verbatim>\<open>measure\<close> and the data passed to \<^verbatim>\<open>_handle_data\<close>, in order.
\<close>

record ('sn, 'sk, 'd) loop =
  sensor :: 'sn
  sinks :: 'sk
  scheduled :: "(real \<times> int) list"
  stopped :: bool
  unhandled :: "error list"
  measure_calls :: nat
  handled :: "'d list"

text \<open>
  The function \<^verbatim>\<open>callback(num)\<close> defined in \<^verbatim>\<open>_start\<close>. The first component of the result
  is the exception that leaves the function, if any.
\<close>

definition callback ::
  "('sn, 'sk, 'd) application \<Rightarrow> int \<Rightarrow> ('sn, 'sk, 'd) loop \<Rightarrow> error option \<times> ('sn, 'sk, 'd) loop"
where
  "callback app num st =
     (let (r, sn) = sensor_measure app (sensor st);
          st = st\<lparr>sensor := sn, measure_calls := Suc (measure_calls st)\<rparr>
      in case r of
           Inl e \<Rightarrow> (Some e, st)
         | Inr sensor_data \<Rightarrow>
             let (r, sk) = handle_data app sensor_data (sinks st);
                 st = st\<lparr>sinks := sk, handled := handled st @ [sensor_data]\<rparr>
             in case r of
                  Some e \<Rightarrow> (Some e, st)
                | None \<Rightarrow>
                    if Some num \<noteq> poll app
                    then (None, st\<lparr>scheduled := scheduled st @ [(interval app, num + 1)]\<rparr>)
                    else (None, st\<lparr>stopped := True\<rparr>))"

text \<open>\<^verbatim>\<open>_start\<close>: \<^verbatim>\<open>self._loop.call_soon(callback, 1)\<close>.\<close>

definition start :: "('sn, 'sk, 'd) application \<Rightarrow> ('sn, 'sk, 'd) loop \<Rightarrow> ('sn, 'sk, 'd) loop" where
  "start app st = st\<lparr>scheduled := scheduled st @ [(0, 1)]\<rparr>"

text \<open>
  The event loop of \<^verbatim>\<open>asyncio\<close>, as far as the application uses it. One iteration makes
  the oldest scheduled call. An exception that leaves the callback is given to the
  exception handler of the loop, and the loop goes on. With nothing scheduled the loop
  waits: the iteration changes nothing. \<^verbatim>\<open>run_forever\<close> iterates until \<^verbatim>\<open>stop()\<close> has been
  called; \<open>run_forever app k st = None\<close> says that it has not returned after \<open>k\<close>
  iterations.
\<close>

definition run_once :: "('sn, 'sk, 'd) application \<Rightarrow> ('sn, 'sk, 'd) loop \<Rightarrow> ('sn, 'sk, 'd) loop" where
  "run_once app st =
     (case scheduled st of
        [] \<Rightarrow> st
      | (delay, num) # rest \<Rightarrow>
          (case callback app num (st\<lparr>scheduled := rest\<rparr>) of
             (None, st') \<Rightarrow> st'
           | (Some e, st') \<Rightarrow> st'\<lparr>unhandled := unhandled st' @ [e]\<rparr>))"

fun run_forever ::
  "('sn, 'sk, 'd) application \<Rightarrow> nat \<Rightarrow> ('sn, 'sk, 'd) loop \<Rightarrow> ('sn, 'sk, 'd) loop option"
where
  "run_forever app 0 st = None"
| "run_forever app (Suc k) st =
     (let st' = run_once app st in if stopped st' then Some st' else run_forever app k st')"

text \<open>The state of an application before \<^verbatim>\<open>run\<close>.\<close>

definition new_loop :: "'sn \<Rightarrow> 'sk \<Rightarrow> ('sn, 'sk, 'd) loop" where
  "new_loop sn sk =
     \<lparr>sensor = sn, sinks = sk, scheduled = [], stopped = False, unhandled = [],
      measure_calls = 0, handled = []\<rparr>"

subsection \<open>The sensors as seen by the application\<close>

definition mock_sensor :: "unit \<Rightarrow> (error + measurement) \<times> unit" where
  "mock_sensor u = (Inr mock_measure, u)"

text \<open>
  The BME280 on a controller. When \<^verbatim>\<open>measure\<close> raises, the driver is left as it was
  before the call (the attributes assigned before the exception are not kept here).
\<close>

definition bme280_sensor ::
  "rounding \<Rightarrow> i2c_ctrl \<Rightarrow> bme280 \<Rightarrow> (error + measurement) \<times> bme280" where
  "bme280_sensor rnd ctrl s =
     (case measure_bme280 rnd ctrl s of
        Inl e \<Rightarrow> (Inl e, s)
      | Inr (m, s') \<Rightarrow> (Inr m, s'))"

subsection \<open>The handlers\<close>

text \<open>\<^verbatim>\<open>Application._handle_data\<close>: \<^verbatim>\<open>pass\<close>.\<close>

definition application_handle_data :: "'d \<Rightarrow> 'sk \<Rightarrow> error option \<times> 'sk" where
  "application_handle_data data sk = (None, sk)"

text \<open>
  \<^verbatim>\<open>SensorNode._handle_data\<close>. The classes of the two sinks, \<^verbatim>\<open>senlib.web.WebServer\<close> and
  \<^verbatim>\<open>senlib.mqtt.Publisher\<close>, are collaborators: \<open>broadcast\<close> and \<open>publish\<close> are parameters,
  each returning or raising, with a state of the sink. A sink that is not configured is
  \<open>None\<close>. The fields \<open>broadcast_calls\<close> and \<open>publish_calls\<close> record the data with which
  each sink was called.
\<close>

record ('w, 'p, 'd) sensor_node =
  webserver :: "'w option"
  publisher :: "'p option"
  broadcast_calls :: "'d list"
  publish_calls :: "'d list"

definition sensor_node_handle_data ::
  "('d \<Rightarrow> 'w \<Rightarrow> error option \<times> 'w) \<Rightarrow> ('d \<Rightarrow> 'p \<Rightarrow> error option \<times> 'p) \<Rightarrow>
   'd \<Rightarrow> ('w, 'p, 'd) sensor_node \<Rightarrow> error option \<times> ('w, 'p, 'd) sensor_node"
where
  "sensor_node_handle_data broadcast publish data node =
     (let (r, node) =
            (case webserver node of
               None \<Rightarrow> (None, node)
             | Some w \<Rightarrow>
                 let (r, w') = broadcast data w
                 in (r, node\<lparr>webserver := Some w',
                              broadcast_calls := broadcast_calls node @ [data]\<rparr>))
      in case r of
           Some e \<Rightarrow> (Some e, node)
         | None \<Rightarrow>
             (case publisher node of
                None \<Rightarrow> (None, node)
              | Some p \<Rightarrow>
                  let (r, p') = publish data p
                  in (r, node\<lparr>publisher := Some p',
                               publish_calls := publish_calls node @ [data]\<rparr>)))"

section \<open>Example devices\<close>

text \<open>
  A device used to run the driver on concrete data. Its calibration registers hold
  \<open>dig_T2 = 4000\<close>, \<open>dig_P1 = 32768\<close>, \<open>dig_H2 = 100\<close>, \<open>dig_H6 = 64\<close> and 0 elsewhere;
  its data registers hold the raw sample \<open>adc_p = adc_t = 524288\<close>, \<open>adc_h = 32768\<close>.
\<close>

definition example_ctrl :: i2c_ctrl where
  "example_ctrl =
     \<lparr>read_i2c_block_data = (\<lambda>a r n.
        if r = 0x88 then Inr ((replicate n 0)[2 := 0xA0, 3 := 0x0F, 7 := 0x80])
        else if r = 0xE1 then Inr ((replicate n 0)[0 := 0x64, 6 := 0x40])
        else Inr ((replicate n 0)[0 := 0x80])),
      write_byte_data = (\<lambda>a r v. Inr ())\<rparr>"

definition example_driver :: bme280 where
  "example_driver =
     (init_fields 0x77)\<lparr>dig_T2 := 4000, dig_P1 := 32768, dig_H2 := 100, dig_H6 := 64,
        osrs_h := 1, osrs_t := 1, osrs_p := 1, power_mode := 3, t_sb := 5\<rparr>"

text \<open>Devices whose registers all read \<^verbatim>\<open>0xFF\<close>, or alternately \<^verbatim>\<open>0x00\<close> and \<^verbatim>\<open>0x80\<close>.\<close>

definition ctrl_FF :: i2c_ctrl where
  "ctrl_FF =
     \<lparr>read_i2c_block_data = (\<lambda>a r n. Inr (replicate n 0xFF)),
      write_byte_data = (\<lambda>a r v. Inr ())\<rparr>"

definition ctrl_0080 :: i2c_ctrl where
  "ctrl_0080 =
     \<lparr>read_i2c_block_data = (\<lambda>a r n. Inr (take n (concat (replicate 13 [0x00, 0x80])))),
      write_byte_data = (\<lambda>a r v. Inr ())\<rparr>"

text \<open>
  A rounding to 50 binary places, and a driver state in which the factor of the pressure
  compensation is \<open>1 / 2 ^ 54\<close> before rounding: \<open>dig_P1 = 1\<close>, \<open>dig_P2 = -29184\<close>,
  \<open>dig_P3 = 6498\<close> and \<open>t_fine = 2482697\<close>.
\<close>

definition fixed_point_50 :: rounding where
  "fixed_point_50 x = real_of_int (round (x * 2 ^ 50)) / 2 ^ 50"

definition cancelling_driver :: bme280 where
  "cancelling_driver =
     example_driver\<lparr>dig_P1 := 1, dig_P2 := - 29184, dig_P3 := 6498, t_fine := 2482697\<rparr>"

text \<open>A controller on which every transaction fails.\<close>

definition failing_ctrl :: i2c_ctrl where
  "failing_ctrl =
     \<lparr>read_i2c_block_data = (\<lambda>a r n. Inl OSError),
      write_byte_data = (\<lambda>a r v. Inl OSError)\<rparr>"

section \<open>Example applications\<close>


definition failing_application :: "int option \<Rightarrow> (bme280, unit, measurement) application" where
  "failing_application p =
     \<lparr>sensor_measure = bme280_sensor exact failing_ctrl, handle_data = application_handle_data,
      poll = p, interval = 2\<rparr>"

text \<open>
  A sensor node on the mock sensor with both sinks configured. A sink of the examples
  has no state; \<open>failing_sink\<close> raises at every call and \<open>healthy_sink\<close> returns. The node
  application has no \<^verbatim>\<open>poll\<close> argument, so \<^verbatim>\<open>__init__\<close> sets it to \<open>-1\<close>.
\<close>

definition failing_sink :: "measurement \<Rightarrow> unit \<Rightarrow> error option \<times> unit" where
  "failing_sink data u = (Some OSError, u)"

definition healthy_sink :: "measurement \<Rightarrow> unit \<Rightarrow> error option \<times> unit" where
  "healthy_sink data u = (None, u)"

definition both_sinks :: "(unit, unit, measurement) sensor_node" where
  "both_sinks =
     \<lparr>webserver = Some (), publisher = Some (), broadcast_calls = [], publish_calls = []\<rparr>"

definition node_application ::
  "(measurement \<Rightarrow> unit \<Rightarrow> error option \<times> unit) \<Rightarrow>
   (measurement \<Rightarrow> unit \<Rightarrow> error option \<times> unit) \<Rightarrow>
   (unit, (unit, unit, measurement) sensor_node, measurement) application"
where
  "node_application broadcast publish =
     \<lparr>sensor_measure = mock_sensor,
      handle_data = sensor_node_handle_data broadcast publish,
      poll = Some (- 1), interval = 2\<rparr>"

section \<open>Arithmetic without rounding\<close>

lemma fl_exact:
  "fadd exact x y = x + y" "fsub exact x y = x - y" "fmul exact x y = x * y"
  "fdiv exact x y = x / y"
  by (simp_all add: fadd_def fsub_def fmul_def fdiv_def exact_def)

section \<open>Humidity compensation is clamped\<close>

lemma compensate_humidity_clamp:
  "compensate_humidity rnd s adc_h =
     (if humidity_raw rnd s adc_h > 100 then 100
      else if humidity_raw rnd s adc_h < 0 then 0 else humidity_raw rnd s adc_h)"
  by (simp only: compensate_humidity_def humidity_raw_def Let_def)

text \<open>
  Claim C1. For every calibration set, every \<open>t_fine\<close> and every \<open>adc_h\<close> (in particular
  every unsigned 16-bit one), \<open>compensate_humidity\<close> returns a value in the closed interval
  from 0 to 100: a result of the raw formula above 100 is replaced by 100, one below 0
  by 0, and one inside the interval is returned as it is.
\<close>

theorem humidity_clamped:
  "0 \<le> compensate_humidity rnd s adc_h \<and> compensate_humidity rnd s adc_h \<le> 100 \<and>
   (humidity_raw rnd s adc_h > 100 \<longrightarrow> compensate_humidity rnd s adc_h = 100) \<and>
   (humidity_raw rnd s adc_h < 0 \<longrightarrow> compensate_humidity rnd s adc_h = 0) \<and>
   (0 \<le> humidity_raw rnd s adc_h \<and> humidity_raw rnd s adc_h \<le> 100 \<longrightarrow>
      compensate_humidity rnd s adc_h = humidity_raw rnd s adc_h)"
  unfolding compensate_humidity_clamp by simp

lemma humidity_raw_above:
  "humidity_raw exact (example_driver\<lparr>dig_H2 := 30000\<rparr>) 65535 > 100"
  by (simp add: humidity_raw_def example_driver_def init_fields_def Let_def fl_exact)

lemma humidity_raw_below:
  "humidity_raw exact (example_driver\<lparr>dig_H2 := - 30000\<rparr>) 65535 < 0"
  by (simp add: humidity_raw_def example_driver_def init_fields_def Let_def fl_exact)

lemma humidity_raw_inside: "humidity_raw exact example_driver 32768 = 23725 / 512"
  by (simp add: humidity_raw_def example_driver_def init_fields_def Let_def fl_exact)

theorem humidity_clamped_witness:
  "humidity_raw exact (example_driver\<lparr>dig_H2 := 30000\<rparr>) 65535 > 100 \<and>
   compensate_humidity exact (example_driver\<lparr>dig_H2 := 30000\<rparr>) 65535 = 100 \<and>
   humidity_raw exact (example_driver\<lparr>dig_H2 := - 30000\<rparr>) 65535 < 0 \<and>
   compensate_humidity exact (example_driver\<lparr>dig_H2 := - 30000\<rparr>) 65535 = 0 \<and>
   0 \<le> humidity_raw exact example_driver 32768 \<and> humidity_raw exact example_driver 32768 \<le> 100 \<and>
   compensate_humidity exact example_driver 32768 = 23725 / 512"
  using humidity_clamped [of exact "example_driver\<lparr>dig_H2 := 30000\<rparr>" 65535]
    humidity_clamped [of exact "example_driver\<lparr>dig_H2 := - 30000\<rparr>" 65535]
    humidity_clamped [of exact example_driver 32768] humidity_raw_above humidity_raw_below
  by (simp add: humidity_raw_inside)

section \<open>Pressure compensation does not divide by zero\<close>

lemma truediv_nonzero: "y \<noteq> 0 \<Longrightarrow> and_then (truediv rnd x y) f = f (fdiv rnd x y)"
  by (simp add: truediv_def and_then_def)

lemma compensate_pressure_zero:
  assumes "pressure_var1 rnd s = 0"
  shows "compensate_pressure rnd s adc_p = Inr 0"
  using assms unfolding compensate_pressure_def pressure_var1_def Let_def
  by (rule if_P)

lemma compensate_pressure_nonzero:
  assumes "pressure_var1 rnd s \<noteq> 0"
  shows "\<exists>p. compensate_pressure rnd s adc_p = Inr p"
proof -
  have "\<exists>p. and_then (truediv rnd x (pressure_var1 rnd s)) (\<lambda>p. Inr (g p)) = Inr p"
    for x and g :: "real \<Rightarrow> real"
    using assms by (simp add: truediv_nonzero)
  then show ?thesis
    using assms unfolding compensate_pressure_def pressure_var1_def Let_def
    by (simp only: if_False)
qed

lemma compensate_pressure_returns: "\<exists>p. compensate_pressure rnd s adc_p = Inr p"
  using compensate_pressure_zero compensate_pressure_nonzero by blast

text \<open>
  Claim C2. For every calibration set, \<open>t_fine\<close> and \<open>adc_p\<close>, and whatever the rounding of
  the float operations: if the factor \<open>var1\<close> the program has computed, and by which the
  pressure compensation would divide, is exactly zero, the function returns 0 (the
  division is not reached), and in no case does it raise: the result is never an error,
  in particular never \<open>ZeroDivisionError\<close>.
\<close>

theorem pressure_zero_factor:
  "(pressure_var1 rnd s = 0 \<longrightarrow> compensate_pressure rnd s adc_p = Inr 0) \<and>
   (\<forall>e. compensate_pressure rnd s adc_p \<noteq> Inl e)"
proof (cases "pressure_var1 rnd s = 0")
  case True
  then show ?thesis by (simp add: compensate_pressure_zero)
next
  case False
  then obtain p where "compensate_pressure rnd s adc_p = Inr p"
    using compensate_pressure_nonzero by blast
  with False show ?thesis by simp
qed

lemma pressure_var1_rounded: "pressure_var1 fixed_point_50 cancelling_driver = 0"
  by (simp add: pressure_var1_def cancelling_driver_def example_driver_def init_fields_def
      Let_def fadd_def fsub_def fmul_def fdiv_def fixed_point_50_def round_def)

lemma pressure_var1_unrounded:
  "pressure_var1 exact cancelling_driver = 1 / 18014398509481984"
  by (simp add: pressure_var1_def cancelling_driver_def example_driver_def init_fields_def
      Let_def fl_exact)

text \<open>
  Claim C2, at two states. In the first \<open>dig_P1\<close> is 0. In the second the factor is
  \<open>1 / 2 ^ 54\<close> without rounding, and 0 once the operations round to 50 binary places:
  the test sees the rounded value, and the function returns 0.
\<close>

theorem pressure_zero_factor_witness:
  "pressure_var1 exact (example_driver\<lparr>dig_P1 := 0\<rparr>) = 0 \<and>
   compensate_pressure exact (example_driver\<lparr>dig_P1 := 0\<rparr>) 524288 = Inr 0 \<and>
   pressure_var1 fixed_point_50 cancelling_driver = 0 \<and>
   compensate_pressure fixed_point_50 cancelling_driver 524288 = Inr 0"
  using pressure_zero_factor [of exact "example_driver\<lparr>dig_P1 := 0\<rparr>" 524288]
    pressure_zero_factor [of fixed_point_50 cancelling_driver 524288]
    pressure_var1_rounded
  by (simp add: pressure_var1_def example_driver_def init_fields_def Let_def fl_exact)

section \<open>Decoding the calibration data\<close>

lemma push_bit_4_or_nibble:
  fixes a c :: int
  assumes "0 \<le> c" "c < 16"
  shows "push_bit 4 a OR c = a * 16 + c"
proof -
  have c: "take_bit 4 c = c"
    using assms by (simp add: take_bit_int_eq_self)
  have "push_bit 4 a AND take_bit 4 c = 0"
    by (rule bit_eqI) (auto simp add: bit_and_iff bit_push_bit_iff bit_take_bit_iff)
  then have "push_bit 4 a + c = push_bit 4 a OR c"
    using c disjunctive_add_eq_or [of "push_bit 4 a" c] by simp
  then show ?thesis
    by (simp add: push_bit_eq_mult)
qed

lemma low_nibble_range: "0 \<le> uint (e::byte) AND 0xF \<and> uint e AND 0xF < 16"
proof -
  have "uint e AND 0xF = take_bit 4 (uint e)"
    by (simp add: take_bit_eq_mask mask_eq_exp_minus_1)
  moreover have "take_bit 4 (uint e) < 2 ^ 4" by (rule take_bit_int_less_exp)
  moreover have "0 \<le> take_bit 4 (uint e)" by simp
  ultimately show ?thesis by simp
qed

lemma high_nibble_range: "0 \<le> drop_bit 4 (uint (e::byte)) \<and> drop_bit 4 (uint e) < 16"
proof -
  have "uint e < 256" using uint_bounded [of e] by simp
  moreover have "0 \<le> uint e" by simp
  ultimately have "0 \<le> uint e div 16 \<and> uint e div 16 < 16" by presburger
  then show ?thesis by (simp add: drop_bit_eq_div)
qed

lemma read_calibration_data_fields:
  assumes b: "read_i2c_block_data ctrl (addr s) 0x88 26 = Inr b" "length b = 26"
    and e: "read_i2c_block_data ctrl (addr s) 0xE1 7 = Inr e" "length e = 7"
  shows "\<exists>s'. read_calibration_data ctrl s = Inr s' \<and>
           dig_T1 s' = unpack_H (b ! 0) (b ! 1) \<and>
           dig_T2 s' = unpack_h (b ! 2) (b ! 3) \<and>
           dig_T3 s' = unpack_h (b ! 4) (b ! 5) \<and>
           dig_P1 s' = unpack_H (b ! 6) (b ! 7) \<and>
           dig_P2 s' = unpack_h (b ! 8) (b ! 9) \<and>
           dig_P3 s' = unpack_h (b ! 10) (b ! 11) \<and>
           dig_P4 s' = unpack_h (b ! 12) (b ! 13) \<and>
           dig_P5 s' = unpack_h (b ! 14) (b ! 15) \<and>
           dig_P6 s' = unpack_h (b ! 16) (b ! 17) \<and>
           dig_P7 s' = unpack_h (b ! 18) (b ! 19) \<and>
           dig_P8 s' = unpack_h (b ! 20) (b ! 21) \<and>
           dig_P9 s' = unpack_h (b ! 22) (b ! 23) \<and>
           dig_H1 s' = unpack_B (b ! 25) \<and>
           dig_H2 s' = unpack_h (e ! 0) (e ! 1) \<and>
           dig_H3 s' = unpack_B (e ! 2) \<and>
           dig_H4 s' = push_bit 4 (unpack_b (e ! 3)) OR (uint (e ! 4) AND 0xF) \<and>
           dig_H5 s' = push_bit 4 (unpack_b (e ! 5)) OR drop_bit 4 (uint (e ! 4)) \<and>
           dig_H6 s' = unpack_b (e ! 6) \<and>
           t_fine s' = t_fine s \<and> addr s' = addr s"
  using assms
  by (simp add: read_calibration_data_def and_then_def unpack_HhhHhhhhhhhhBB_def
      unpack_hB_def item_def Let_def)

text \<open>
  Claim C3. When the two calibration blocks are read with their full lengths, every signed
  16-bit field of the calibration data (\<open>dig_T2\<close>, \<open>dig_T3\<close>, \<open>dig_P2\<close> to \<open>dig_P9\<close> in the
  block at \<^verbatim>\<open>0x88\<close>, \<open>dig_H2\<close> in the block at \<^verbatim>\<open>0xE1\<close>) decodes the little-endian byte
  pair \<^verbatim>\<open>[0xFF, 0xFF]\<close> to \<open>-1\<close> and the pair \<^verbatim>\<open>[0x00, 0x80]\<close> to \<open>-32768\<close>.
\<close>

theorem signed16_fields_sign_extended:
  assumes "read_i2c_block_data ctrl (addr s) 0x88 26 = Inr b" and "length b = 26"
    and "read_i2c_block_data ctrl (addr s) 0xE1 7 = Inr e" and "length e = 7"
  shows "\<exists>s'. read_calibration_data ctrl s = Inr s' \<and>
    (\<forall>(field, lo, hi) \<in> set
        [(dig_T2, b ! 2, b ! 3), (dig_T3, b ! 4, b ! 5),
         (dig_P2, b ! 8, b ! 9), (dig_P3, b ! 10, b ! 11), (dig_P4, b ! 12, b ! 13),
         (dig_P5, b ! 14, b ! 15), (dig_P6, b ! 16, b ! 17), (dig_P7, b ! 18, b ! 19),
         (dig_P8, b ! 20, b ! 21), (dig_P9, b ! 22, b ! 23),
         (dig_H2, e ! 0, e ! 1)].
       (lo = 0xFF \<and> hi = 0xFF \<longrightarrow> field s' = - 1) \<and>
       (lo = 0x00 \<and> hi = 0x80 \<longrightarrow> field s' = - 32768))"
proof -
  have m1: "unpack_h 0xFF 0xFF = - 1" by (simp add: unpack_h_def)
  have m2: "unpack_h 0x00 0x80 = - 32768" by (simp add: unpack_h_def)
  obtain s' where s': "read_calibration_data ctrl s = Inr s'"
    and f: "dig_T2 s' = unpack_h (b ! 2) (b ! 3)" "dig_T3 s' = unpack_h (b ! 4) (b ! 5)"
      "dig_P2 s' = unpack_h (b ! 8) (b ! 9)" "dig_P3 s' = unpack_h (b ! 10) (b ! 11)"
      "dig_P4 s' = unpack_h (b ! 12) (b ! 13)" "dig_P5 s' = unpack_h (b ! 14) (b ! 15)"
      "dig_P6 s' = unpack_h (b ! 16) (b ! 17)" "dig_P7 s' = unpack_h (b ! 18) (b ! 19)"
      "dig_P8 s' = unpack_h (b ! 20) (b ! 21)" "dig_P9 s' = unpack_h (b ! 22) (b ! 23)"
      "dig_H2 s' = unpack_h (e ! 0) (e ! 1)"
    using read_calibration_data_fields [OF assms] by blast
  show ?thesis
    using s' by (simp add: f m1 m2)
qed

text \<open>
  Claim C3, at two devices: one whose registers all read \<^verbatim>\<open>0xFF\<close>, one whose registers
  read \<^verbatim>\<open>0x00\<close> and \<^verbatim>\<open>0x80\<close> in turn.
\<close>

theorem signed16_fields_sign_extended_witness:
  "(\<exists>s'. read_calibration_data ctrl_FF (init_fields 0x77) = Inr s' \<and>
      dig_T2 s' = - 1 \<and> dig_T3 s' = - 1 \<and> dig_P2 s' = - 1 \<and> dig_P3 s' = - 1 \<and>
      dig_P4 s' = - 1 \<and> dig_P5 s' = - 1 \<and> dig_P6 s' = - 1 \<and> dig_P7 s' = - 1 \<and>
      dig_P8 s' = - 1 \<and> dig_P9 s' = - 1 \<and> dig_H2 s' = - 1) \<and>
   (\<exists>s'. read_calibration_data ctrl_0080 (init_fields 0x77) = Inr s' \<and>
      dig_T2 s' = - 32768 \<and> dig_T3 s' = - 32768 \<and> dig_P2 s' = - 32768 \<and>
      dig_P3 s' = - 32768 \<and> dig_P4 s' = - 32768 \<and> dig_P5 s' = - 32768 \<and>
      dig_P6 s' = - 32768 \<and> dig_P7 s' = - 32768 \<and> dig_P8 s' = - 32768 \<and>
      dig_P9 s' = - 32768 \<and> dig_H2 s' = - 32768)"
proof -
  have c7: "concat (replicate 13 [0x00, 0x80 :: byte]) =
      [0, 0x80, 0, 0x80, 0, 0x80, 0, 0x80, 0, 0x80, 0, 0x80, 0, 0x80, 0, 0x80, 0, 0x80,
       0, 0x80, 0, 0x80, 0, 0x80, 0, 0x80]"
    by code_simp
  have a: "read_i2c_block_data ctrl_FF (addr (init_fields 0x77)) 0x88 26 = Inr (replicate 26 0xFF)"
    "read_i2c_block_data ctrl_FF (addr (init_fields 0x77)) 0xE1 7 = Inr (replicate 7 0xFF)"
    by (simp_all add: ctrl_FF_def)
  have b: "read_i2c_block_data ctrl_0080 (addr (init_fields 0x77)) 0x88 26
         = Inr (take 26 (concat (replicate 13 [0x00, 0x80])))"
    "read_i2c_block_data ctrl_0080 (addr (init_fields 0x77)) 0xE1 7
         = Inr (take 7 (concat (replicate 13 [0x00, 0x80])))"
    by (simp_all add: ctrl_0080_def)
  show ?thesis
    using signed16_fields_sign_extended [OF a(1) _ a(2)]
      signed16_fields_sign_extended [OF b(1) _ b(2)]
    by (simp add: c7)
qed

text \<open>
  Claim C4. For every block of seven bytes \<open>E1\<close> to \<open>E7\<close> read at register \<^verbatim>\<open>0xE1\<close>, the
  decoder produces \<open>dig_H4\<close> as the sign-extended byte \<open>E4\<close> times 16 plus the low nibble of
  \<open>E5\<close>, and \<open>dig_H5\<close> as the sign-extended byte \<open>E6\<close> times 16 plus the high nibble of
  \<open>E5\<close>: the bitwise or of the source adds the nibble, because the shifted byte has its four
  low bits clear and the nibble is below 16.
\<close>

theorem packed_H4_H5:
  assumes "read_i2c_block_data ctrl (addr s) 0x88 26 = Inr b" and "length b = 26"
    and "read_i2c_block_data ctrl (addr s) 0xE1 7 = Inr [E1, E2, E3, E4, E5, E6, E7]"
  shows "\<exists>s'. read_calibration_data ctrl s = Inr s' \<and>
           dig_H4 s' = sint E4 * 16 + (uint E5 AND 0x0F) \<and>
           dig_H5 s' = sint E6 * 16 + drop_bit 4 (uint E5)"
proof -
  obtain s' where s': "read_calibration_data ctrl s = Inr s'"
    and h4: "dig_H4 s' = push_bit 4 (unpack_b E4) OR (uint E5 AND 0xF)"
    and h5: "dig_H5 s' = push_bit 4 (unpack_b E6) OR drop_bit 4 (uint E5)"
    using read_calibration_data_fields [OF assms(1,2,3)] by auto
  have "dig_H4 s' = sint E4 * 16 + (uint E5 AND 0x0F)"
    using h4 low_nibble_range [of E5]
    by (simp add: push_bit_4_or_nibble unpack_b_def)
  moreover have "dig_H5 s' = sint E6 * 16 + drop_bit 4 (uint E5)"
    using h5 high_nibble_range [of E5]
    by (simp add: push_bit_4_or_nibble unpack_b_def)
  ultimately show ?thesis using s' by simp
qed

text \<open>
  Claim C4, at the device whose registers all read \<^verbatim>\<open>0xFF\<close>: both constants are \<open>-1\<close>.
\<close>

theorem packed_H4_H5_witness:
  "\<exists>s'. read_calibration_data ctrl_FF (init_fields 0x77) = Inr s' \<and>
      dig_H4 s' = - 1 \<and> dig_H5 s' = - 1"
proof -
  have a: "read_i2c_block_data ctrl_FF (addr (init_fields 0x77)) 0x88 26 = Inr (replicate 26 0xFF)"
    by (simp add: ctrl_FF_def)
  have e: "read_i2c_block_data ctrl_FF (addr (init_fields 0x77)) 0xE1 7
      = Inr [0xFF, 0xFF, 0xFF, 0xFF, 0xFF, 0xFF, 0xFF]"
    by code_simp
  show ?thesis
    using packed_H4_H5 [OF a _ e] by simp
qed

section \<open>The fine temperature of the same sample\<close>

lemma read_raw_sensor_data_t_fine:
  "read_raw_sensor_data ctrl (s\<lparr>t_fine := x\<rparr>) = read_raw_sensor_data ctrl s"
  by (simp add: read_raw_sensor_data_def)

lemma compensate_temperature_t_fine:
  "compensate_temperature rnd (s\<lparr>t_fine := x\<rparr>) adc_t = compensate_temperature rnd s adc_t"
  by (simp add: compensate_temperature_def Let_def)

lemma compensate_pressure_cong:
  assumes "t_fine s = t_fine s'" "dig_P1 s = dig_P1 s'" "dig_P2 s = dig_P2 s'"
    "dig_P3 s = dig_P3 s'" "dig_P4 s = dig_P4 s'" "dig_P5 s = dig_P5 s'"
    "dig_P6 s = dig_P6 s'" "dig_P7 s = dig_P7 s'" "dig_P8 s = dig_P8 s'"
    "dig_P9 s = dig_P9 s'"
  shows "compensate_pressure rnd s adc_p = compensate_pressure rnd s' adc_p"
  unfolding compensate_pressure_def by (simp only: assms)

lemma compensate_humidity_cong:
  assumes "t_fine s = t_fine s'" "dig_H1 s = dig_H1 s'" "dig_H2 s = dig_H2 s'"
    "dig_H3 s = dig_H3 s'" "dig_H4 s = dig_H4 s'" "dig_H5 s = dig_H5 s'"
    "dig_H6 s = dig_H6 s'"
  shows "compensate_humidity rnd s adc_h = compensate_humidity rnd s' adc_h"
  unfolding compensate_humidity_def by (simp only: assms)

lemma compensate_pressure_priv:
  "compensate_pressure rnd (s\<lparr>priv_temperature := t\<rparr>) adc_p = compensate_pressure rnd s adc_p"
  by (rule compensate_pressure_cong) simp_all

lemma compensate_humidity_priv:
  "compensate_humidity rnd (s\<lparr>priv_temperature := t, priv_pressure := p\<rparr>) adc_h = compensate_humidity rnd s adc_h"
  by (rule compensate_humidity_cong) simp_all

text \<open>
  Claim C5. In \<^verbatim>\<open>measure\<close>, \<^verbatim>\<open>read_pressure\<close> and \<^verbatim>\<open>read_humidity\<close> the temperature
  compensation runs first, on the \<open>adc_t\<close> of the raw sample just read. So the result of
  each of the three operations does not depend on the \<open>t_fine\<close> the driver held before the
  call, and the pressure and the humidity they return are those computed in the state
  the temperature compensation of the same sample leaves.
\<close>

theorem t_fine_of_same_sample:
  "measure_bme280 rnd ctrl (s\<lparr>t_fine := x\<rparr>) = measure_bme280 rnd ctrl s \<and>
   read_pressure rnd ctrl (s\<lparr>t_fine := x\<rparr>) = read_pressure rnd ctrl s \<and>
   read_humidity rnd ctrl (s\<lparr>t_fine := x\<rparr>) = read_humidity rnd ctrl s \<and>
   (read_raw_sensor_data ctrl s = Inr (adc_p, adc_t, adc_h) \<longrightarrow>
      (let s1 = snd (compensate_temperature rnd s adc_t) in
         map_sum id fst (read_pressure rnd ctrl s) = compensate_pressure rnd s1 adc_p \<and>
         map_sum id fst (read_humidity rnd ctrl s) = Inr (compensate_humidity rnd s1 adc_h) \<and>
         map_sum id (\<lambda>r. fst r ''pressure'') (measure_bme280 rnd ctrl s)
           = map_sum id Some (compensate_pressure rnd s1 adc_p) \<and>
         (\<forall>r. measure_bme280 rnd ctrl s = Inr r \<longrightarrow>
            fst r ''humidity'' = Some (compensate_humidity rnd s1 adc_h) \<and>
            t_fine (snd r) = t_fine s1)))"
proof -
  have a: "measure_bme280 rnd ctrl (s\<lparr>t_fine := x\<rparr>) = measure_bme280 rnd ctrl s"
    by (simp add: measure_bme280_def read_raw_sensor_data_t_fine compensate_temperature_t_fine)
  have b: "read_pressure rnd ctrl (s\<lparr>t_fine := x\<rparr>) = read_pressure rnd ctrl s"
    by (simp add: read_pressure_def read_raw_sensor_data_t_fine compensate_temperature_t_fine)
  have c: "read_humidity rnd ctrl (s\<lparr>t_fine := x\<rparr>) = read_humidity rnd ctrl s"
    by (simp add: read_humidity_def read_raw_sensor_data_t_fine compensate_temperature_t_fine)
  have d: "map_sum id fst (read_pressure rnd ctrl s)
      = compensate_pressure rnd (snd (compensate_temperature rnd s adc_t)) adc_p"
    if "read_raw_sensor_data ctrl s = Inr (adc_p, adc_t, adc_h)"
    using that compensate_pressure_returns [of rnd "snd (compensate_temperature rnd s adc_t)" adc_p]
    by (auto simp add: read_pressure_def and_then_def split_beta)
  have e: "map_sum id fst (read_humidity rnd ctrl s)
      = Inr (compensate_humidity rnd (snd (compensate_temperature rnd s adc_t)) adc_h)"
    if "read_raw_sensor_data ctrl s = Inr (adc_p, adc_t, adc_h)"
    using that by (simp add: read_humidity_def and_then_def split_beta)
  have f: "map_sum id (\<lambda>r. fst r ''pressure'') (measure_bme280 rnd ctrl s)
           = map_sum id Some (compensate_pressure rnd (snd (compensate_temperature rnd s adc_t)) adc_p) \<and>
         (\<forall>r. measure_bme280 rnd ctrl s = Inr r \<longrightarrow>
            fst r ''humidity'' = Some (compensate_humidity rnd (snd (compensate_temperature rnd s adc_t)) adc_h) \<and>
            t_fine (snd r) = t_fine (snd (compensate_temperature rnd s adc_t)))"
    if "read_raw_sensor_data ctrl s = Inr (adc_p, adc_t, adc_h)"
    using that compensate_pressure_returns [of rnd "snd (compensate_temperature rnd s adc_t)" adc_p]
    by (auto simp add: measure_bme280_def and_then_def split_beta Let_def
        compensate_pressure_priv compensate_humidity_priv)
  show ?thesis
    using a b c d e f unfolding Let_def by blast
qed

subsection \<open>Evaluation at the example device\<close>

lemma replicate_3: "replicate 3 x = [x, x, x]" by (simp add: numeral_3_eq_3)
lemma replicate_2: "replicate 2 x = [x, x]" by (simp add: numeral_2_eq_2)

lemma example_raw:
  "read_raw_sensor_data example_ctrl example_driver = Inr (524288, 524288, 32768)"
  by (simp add: read_raw_sensor_data_def example_ctrl_def example_driver_def init_fields_def
     REG_PRESS_def REG_TEMP_def REG_HUM_def and_then_def replicate_3 replicate_2)

lemma example_temperature:
  "compensate_temperature exact example_driver 524288 = (25, example_driver\<lparr>t_fine := 128000\<rparr>)"
  by (simp add: compensate_temperature_def example_driver_def init_fields_def py_int_def Let_def
      fl_exact)

lemma example_pressure:
  "compensate_pressure exact (example_driver\<lparr>t_fine := 128000\<rparr>) 524288 = Inr 100000"
  by (simp add: compensate_pressure_def example_driver_def init_fields_def and_then_def
      truediv_def Let_def fl_exact)

lemma example_humidity:
  "compensate_humidity exact (example_driver\<lparr>t_fine := 128000\<rparr>) 32768 = 13425 / 256"
  by (simp add: compensate_humidity_def example_driver_def init_fields_def Let_def fl_exact)

lemma example_measure:
  "measure_bme280 exact example_ctrl example_driver =
     Inr ([''temperature'' \<mapsto> 25, ''humidity'' \<mapsto> 13425 / 256, ''pressure'' \<mapsto> 100000],
          example_driver\<lparr>t_fine := 128000, priv_temperature := 25, priv_pressure := 100000,
             priv_humidity := 13425 / 256\<rparr>)"
  by (simp add: measure_bme280_def example_raw example_temperature and_then_def
      compensate_pressure_priv compensate_humidity_priv example_pressure example_humidity)

text \<open>
  Claim C5, at the example device: a stale \<open>t_fine = 7\<close> changes nothing, and the values
  are those for \<open>t_fine = 128000\<close>, computed from the sample.
\<close>

theorem t_fine_of_same_sample_witness:
  "read_raw_sensor_data example_ctrl example_driver = Inr (524288, 524288, 32768) \<and>
   t_fine (snd (compensate_temperature exact example_driver 524288)) = 128000 \<and>
   map_sum id fst (read_pressure exact example_ctrl example_driver) = Inr 100000 \<and>
   map_sum id fst (read_humidity exact example_ctrl example_driver) = Inr (13425 / 256) \<and>
   measure_bme280 exact example_ctrl (example_driver\<lparr>t_fine := 7\<rparr>)
     = measure_bme280 exact example_ctrl example_driver"
  using t_fine_of_same_sample [where rnd = exact and ctrl = example_ctrl and s = example_driver and x = 7
      and adc_p = 524288 and adc_t = 524288 and adc_h = 32768]
  by (simp add: example_raw example_temperature example_pressure example_humidity)

section \<open>Compensation without a temperature compensation\<close>

lemma and_then_Inr: "and_then m f = Inr y \<Longrightarrow> \<exists>x. m = Inr x \<and> f x = Inr y"
  by (cases m) (simp_all add: and_then_def)

lemma read_calibration_data_t_fine:
  assumes "read_calibration_data ctrl s = Inr s'"
  shows "t_fine s' = t_fine s"
  using assms unfolding read_calibration_data_def Let_def
  by (auto dest!: and_then_Inr simp add: split_beta)

lemma init_t_fine:
  assumes "init ctrl a = Inr s"
  shows "t_fine s = 0"
proof -
  from assms obtain s1 where s1: "read_calibration_data ctrl (init_fields a) = Inr s1"
    and s: "s = s1\<lparr>osrs_h := 1, osrs_t := 1, osrs_p := 1, power_mode := 3,
                    filter_setting := 0, t_sb := 5\<rparr>"
    unfolding init_def Let_def by (auto dest!: and_then_Inr)
  have "t_fine s1 = 0"
    using read_calibration_data_t_fine [OF s1] by (simp add: init_fields_def)
  then show ?thesis by (simp add: s)
qed

lemma guarded_truediv:
  "(if y = 0 then Inr 0 else and_then (truediv rnd x y) f)
     = (if y = 0 then Inr 0 else f (fdiv rnd x y))"
  by (simp add: truediv_nonzero)

text \<open>
  Claim C6, amended. The driver has no compensation error, and the pressure and humidity
  compensation do not check that a temperature compensation came first. Called in any
  state, each returns the value of its formula computed from the \<open>t_fine\<close> the driver holds
  at the call, and raises nothing; a driver that has just been constructed holds
  \<open>t_fine = 0\<close>.
\<close>

theorem compensation_without_temperature:
  "(\<forall>s0. init ctrl a = Inr s0 \<longrightarrow> t_fine s0 = 0) \<and>
   compensate_pressure rnd s adc_p =
     (let tf = t_fine s;
          var1 = fsub rnd (fdiv rnd tf 2) 64000;
          var2 = fdiv rnd (fmul rnd (fmul rnd var1 var1) (real_of_int (dig_P6 s))) 32768;
          var2 = fadd rnd var2 (fmul rnd (fmul rnd var1 (real_of_int (dig_P5 s))) 2);
          var2 = fadd rnd (fdiv rnd var2 4) (fmul rnd (real_of_int (dig_P4 s)) 65536);
          var1 = fdiv rnd
                   (fadd rnd
                      (fdiv rnd (fmul rnd (fmul rnd (real_of_int (dig_P3 s)) var1) var1) 524288)
                      (fmul rnd (real_of_int (dig_P2 s)) var1))
                   524288;
          var1 = fmul rnd (fadd rnd 1 (fdiv rnd var1 32768)) (real_of_int (dig_P1 s))
      in if var1 = 0 then Inr 0
         else
           let p = fsub rnd 1048576 (real_of_int adc_p);
               p = fdiv rnd (fmul rnd (fsub rnd p (fdiv rnd var2 4096)) 6250) var1;
               var1 = fdiv rnd (fmul rnd (fmul rnd (real_of_int (dig_P9 s)) p) p) 2147483648;
               var2 = fdiv rnd (fmul rnd p (real_of_int (dig_P8 s))) 32768
           in Inr (fadd rnd p
                     (fdiv rnd (fadd rnd (fadd rnd var1 var2) (real_of_int (dig_P7 s))) 16))) \<and>
   compensate_humidity rnd s adc_h =
     (let tf = t_fine s;
          h = fsub rnd tf 76800;
          h = fmul rnd
                (fsub rnd (real_of_int adc_h)
                   (fadd rnd (fmul rnd (real_of_int (dig_H4 s)) 64)
                             (fmul rnd (fdiv rnd (real_of_int (dig_H5 s)) 16384) h)))
                (fmul rnd (fdiv rnd (real_of_int (dig_H2 s)) 65536)
                   (fadd rnd 1
                      (fmul rnd (fmul rnd (fdiv rnd (real_of_int (dig_H6 s)) 67108864) h)
                         (fadd rnd 1 (fmul rnd (fdiv rnd (real_of_int (dig_H3 s)) 67108864) h)))));
          h = fmul rnd h (fsub rnd 1 (fdiv rnd (fmul rnd (real_of_int (dig_H1 s)) h) 524288))
      in if h > 100 then 100 else if h < 0 then 0 else h)"
proof -
  have a: "\<forall>s0. init ctrl a = Inr s0 \<longrightarrow> t_fine s0 = 0"
    using init_t_fine by blast
  have b: "compensate_pressure rnd s adc_p =
     (let tf = t_fine s;
          var1 = fsub rnd (fdiv rnd tf 2) 64000;
          var2 = fdiv rnd (fmul rnd (fmul rnd var1 var1) (real_of_int (dig_P6 s))) 32768;
          var2 = fadd rnd var2 (fmul rnd (fmul rnd var1 (real_of_int (dig_P5 s))) 2);
          var2 = fadd rnd (fdiv rnd var2 4) (fmul rnd (real_of_int (dig_P4 s)) 65536);
          var1 = fdiv rnd
                   (fadd rnd
                      (fdiv rnd (fmul rnd (fmul rnd (real_of_int (dig_P3 s)) var1) var1) 524288)
                      (fmul rnd (real_of_int (dig_P2 s)) var1))
                   524288;
          var1 = fmul rnd (fadd rnd 1 (fdiv rnd var1 32768)) (real_of_int (dig_P1 s))
      in if var1 = 0 then Inr 0
         else
           let p = fsub rnd 1048576 (real_of_int adc_p);
               p = fdiv rnd (fmul rnd (fsub rnd p (fdiv rnd var2 4096)) 6250) var1;
               var1 = fdiv rnd (fmul rnd (fmul rnd (real_of_int (dig_P9 s)) p) p) 2147483648;
               var2 = fdiv rnd (fmul rnd p (real_of_int (dig_P8 s))) 32768
           in Inr (fadd rnd p
                     (fdiv rnd (fadd rnd (fadd rnd var1 var2) (real_of_int (dig_P7 s))) 16)))"
    unfolding compensate_pressure_def Let_def by (simp only: guarded_truediv)
  have c: "compensate_humidity rnd s adc_h =
     (let tf = t_fine s;
          h = fsub rnd tf 76800;
          h = fmul rnd
                (fsub rnd (real_of_int adc_h)
                   (fadd rnd (fmul rnd (real_of_int (dig_H4 s)) 64)
                             (fmul rnd (fdiv rnd (real_of_int (dig_H5 s)) 16384) h)))
                (fmul rnd (fdiv rnd (real_of_int (dig_H2 s)) 65536)
                   (fadd rnd 1
                      (fmul rnd (fmul rnd (fdiv rnd (real_of_int (dig_H6 s)) 67108864) h)
                         (fadd rnd 1 (fmul rnd (fdiv rnd (real_of_int (dig_H3 s)) 67108864) h)))));
          h = fmul rnd h (fsub rnd 1 (fdiv rnd (fmul rnd (real_of_int (dig_H1 s)) h) 524288))
      in if h > 100 then 100 else if h < 0 then 0 else h)"
    unfolding compensate_humidity_def Let_def by (rule refl)
  show ?thesis
    using a b c by (rule conjI [OF _ conjI])
qed

lemma example_init: "init example_ctrl 0x77 = Inr example_driver"
  by (simp add: init_def init_fields_def example_ctrl_def example_driver_def
      read_calibration_data_def and_then_def unpack_HhhHhhhhhhhhBB_def unpack_hB_def item_def
      unpack_H_def unpack_h_def unpack_B_def unpack_b_def set_meas_and_hum_def set_hum_def
      set_meas_def set_config_def Let_def)

lemma example_pressure_initial:
  "compensate_pressure exact example_driver 524288 = Inr 100000"
  by (simp add: compensate_pressure_def example_driver_def init_fields_def and_then_def
      truediv_def Let_def fl_exact)

lemma example_humidity_initial:
  "compensate_humidity exact example_driver 32768 = 23725 / 512"
  by (simp add: compensate_humidity_def example_driver_def init_fields_def Let_def fl_exact)

text \<open>
  Claim C6, amended, at the example device.
\<close>

theorem compensation_without_temperature_witness:
  "init example_ctrl 0x77 = Inr example_driver \<and> t_fine example_driver = 0 \<and>
   compensate_pressure exact example_driver 524288 = Inr 100000 \<and>
   compensate_humidity exact example_driver 32768 = 23725 / 512"
proof -
  note t = compensation_without_temperature [where ctrl = example_ctrl and a = "0x77"
      and rnd = exact and s = example_driver and adc_p = 524288 and adc_h = 32768]
  have "t_fine example_driver = 0"
    using t example_init by blast
  then show ?thesis
    by (simp add: example_init example_pressure_initial example_humidity_initial)
qed

text \<open>
  Claim C6 as stated fails. On the example device, right after construction and without
  any temperature compensation, the pressure compensation returns 100000 and the humidity
  compensation returns \<open>23725 / 512\<close>, computed from the initial \<open>t_fine = 0\<close>; with the
  \<open>t_fine\<close> of the sample the humidity would be \<open>13425 / 256\<close>. No error is raised.
\<close>

theorem compensation_error_counterexample:
  "init example_ctrl 0x77 = Inr example_driver \<and>
   compensate_pressure exact example_driver 524288 = Inr 100000 \<and>
   compensate_humidity exact example_driver 32768 = 23725 / 512"
  by (simp add: example_init example_pressure_initial example_humidity_initial)

section \<open>The mapping returned and the accessors\<close>

lemma measure_bme280_Inr:
  assumes "measure_bme280 rnd ctrl s = Inr (m, s')"
  shows "m = [''temperature'' \<mapsto> priv_temperature s',
              ''humidity'' \<mapsto> priv_humidity s',
              ''pressure'' \<mapsto> priv_pressure s']"
  using assms
  by (auto simp add: measure_bme280_def and_then_def Let_def split: sum.splits prod.splits)

text \<open>
  Claim C10. When \<^verbatim>\<open>measure\<close> returns the mapping \<open>m\<close>, the accessors of the driver in the
  state it leaves agree with \<open>m\<close>: \<^verbatim>\<open>temperature()\<close>, \<^verbatim>\<open>pressure()\<close> and \<^verbatim>\<open>humidity()\<close> are the
  values of \<open>m\<close> at the three keys, and \<open>m\<close> has no other key. The accessors only read the
  state, so this holds as long as the state is not changed.
\<close>

theorem measure_accessors_agree:
  assumes "measure_bme280 rnd ctrl s = Inr (m, s')"
  shows "m ''temperature'' = Some (temperature s') \<and>
         m ''pressure'' = Some (pressure s') \<and>
         m ''humidity'' = Some (humidity s') \<and>
         dom m = {''temperature'', ''pressure'', ''humidity''}"
proof -
  note m = measure_bme280_Inr [OF assms]
  have "m ''temperature'' = Some (temperature s')"
    by (simp add: m temperature_def)
  moreover have "m ''pressure'' = Some (pressure s')"
    by (simp add: m pressure_def)
  moreover have "m ''humidity'' = Some (humidity s')"
    by (simp add: m humidity_def)
  moreover have "dom m = {''temperature'', ''pressure'', ''humidity''}"
    by (subst m) (simp add: insert_commute)
  ultimately show ?thesis by simp
qed

text \<open>
  Claim C10, at the example device.
\<close>

theorem measure_accessors_agree_witness:
  "measure_bme280 exact example_ctrl example_driver =
     Inr ([''temperature'' \<mapsto> 25, ''humidity'' \<mapsto> 13425 / 256, ''pressure'' \<mapsto> 100000],
          example_driver\<lparr>t_fine := 128000, priv_temperature := 25, priv_pressure := 100000,
             priv_humidity := 13425 / 256\<rparr>) \<and>
   temperature (example_driver\<lparr>t_fine := 128000, priv_temperature := 25,
      priv_pressure := 100000, priv_humidity := 13425 / 256\<rparr>) = 25 \<and>
   pressure (example_driver\<lparr>t_fine := 128000, priv_temperature := 25,
      priv_pressure := 100000, priv_humidity := 13425 / 256\<rparr>) = 100000 \<and>
   humidity (example_driver\<lparr>t_fine := 128000, priv_temperature := 25,
      priv_pressure := 100000, priv_humidity := 13425 / 256\<rparr>) = 13425 / 256"
  using measure_accessors_agree [OF example_measure] example_measure
  by simp

section \<open>The cycles of the acquisition loop\<close>

lemma run_once_idle: "scheduled st = [] \<Longrightarrow> run_once app st = st"
  by (simp add: run_once_def)

lemma run_forever_idle:
  "scheduled st = [] \<Longrightarrow> \<not> stopped st \<Longrightarrow> run_forever app k st = None"
  by (induction k) (simp_all add: run_once_idle)

lemma run_once_measure_raises:
  assumes "sensor_measure app (sensor st) = (Inl e, sn')" and "scheduled st = (dl, num) # rest"
  shows "run_once app st =
           st\<lparr>scheduled := rest, sensor := sn', measure_calls := Suc (measure_calls st),
              unhandled := unhandled st @ [e]\<rparr>"
  using assms by (simp add: run_once_def callback_def)

lemma run_once_handler_raises:
  assumes "sensor_measure app (sensor st) = (Inr d, sn')"
    and "handle_data app d (sinks st) = (Some e, sk')"
    and "scheduled st = (dl, num) # rest"
  shows "run_once app st =
           st\<lparr>scheduled := rest, sensor := sn', measure_calls := Suc (measure_calls st),
              sinks := sk', handled := handled st @ [d], unhandled := unhandled st @ [e]\<rparr>"
  using assms by (simp add: run_once_def callback_def)

lemma run_once_returns:
  assumes "sensor_measure app (sensor st) = (Inr d, sn')"
    and "handle_data app d (sinks st) = (None, sk')"
    and "scheduled st = (dl, num) # rest"
  shows "run_once app st =
           (if Some num \<noteq> poll app
            then st\<lparr>scheduled := rest @ [(interval app, num + 1)], sensor := sn',
                    measure_calls := Suc (measure_calls st),
                    sinks := sk', handled := handled st @ [d]\<rparr>
            else st\<lparr>scheduled := rest, sensor := sn', measure_calls := Suc (measure_calls st),
                    sinks := sk', handled := handled st @ [d], stopped := True\<rparr>)"
  using assms by (simp add: run_once_def callback_def)


lemma run_forever_goes_idle:
  assumes "scheduled (run_once app st) = []" and "\<not> stopped (run_once app st)"
  shows "run_forever app k st = None"
  using assms by (cases k) (simp_all add: run_forever_idle)






lemma failing_measure:
  "sensor_measure (failing_application p) s = (Inl OSError, s)"
  by (simp add: failing_application_def bme280_sensor_def measure_bme280_def
      read_raw_sensor_data_def failing_ctrl_def and_then_def)


section \<open>Failures in a cycle\<close>

text \<open>
  Claim C8, amended. When \<^verbatim>\<open>measure\<close> raises in a cycle, the exception leaves the callback
  and is given to the exception handler of the event loop; \<^verbatim>\<open>_handle_data\<close> is not called
  for the cycle, no further cycle is scheduled and the event loop is not stopped. The
  loop keeps running with nothing to do: no later measurement is made and
  \<^verbatim>\<open>run_forever\<close> never returns.
\<close>

theorem failed_measure_ends_acquisition:
  assumes "sensor_measure app (sensor st) = (Inl e, sn')"
    and "scheduled st = [(dl, num)]" and "\<not> stopped st"
  shows "scheduled (run_once app st) = [] \<and> \<not> stopped (run_once app st) \<and>
         unhandled (run_once app st) = unhandled st @ [e] \<and>
         handled (run_once app st) = handled st \<and>
         measure_calls (run_once app st) = Suc (measure_calls st) \<and>
         run_once app (run_once app st) = run_once app st \<and>
         (\<forall>k. run_forever app k st = None)"
proof -
  have sch: "scheduled st = (dl, num) # []" using assms(2) by simp
  note r = run_once_measure_raises [OF assms(1) sch]
  have a: "scheduled (run_once app st) = []" "\<not> stopped (run_once app st)"
    using assms(3) by (simp_all add: r)
  have "run_forever app k st = None" for k
    by (rule run_forever_goes_idle) (rule a)+
  moreover have "run_once app (run_once app st) = run_once app st"
    by (rule run_once_idle) (rule a)
  ultimately show ?thesis using a by (simp add: r)
qed

text \<open>
  Claim C8, amended, at a BME280 whose bus transactions fail, polled without bound.
\<close>

theorem failed_measure_ends_acquisition_witness:
  "scheduled (run_once (failing_application (Some (- 1)))
      (start (failing_application (Some (- 1))) (new_loop example_driver ()))) = [] \<and>
   unhandled (run_once (failing_application (Some (- 1)))
      (start (failing_application (Some (- 1))) (new_loop example_driver ()))) = [OSError] \<and>
   run_forever (failing_application (Some (- 1))) 100
      (start (failing_application (Some (- 1))) (new_loop example_driver ())) = None"
proof -
  let ?app = "failing_application (Some (- 1))"
  let ?st = "start ?app (new_loop example_driver ())"
  have "sensor_measure ?app (sensor ?st) = (Inl OSError, sensor ?st)"
    by (rule failing_measure)
  moreover have "scheduled ?st = [(0, 1)]" "\<not> stopped ?st" "unhandled ?st = []"
    by (simp_all add: start_def new_loop_def)
  ultimately show ?thesis
    using failed_measure_ends_acquisition [of ?app ?st OSError "sensor ?st" 0 1] by simp
qed

text \<open>
  Claim C8 as stated fails. With \<^verbatim>\<open>poll = 5\<close> and a BME280 whose bus transactions fail,
  nothing is scheduled after the failed first cycle, and after a further iteration of the
  event loop \<^verbatim>\<open>measure\<close> has still been called only once.
\<close>

theorem failed_cycle_counterexample:
  "scheduled (run_once (failing_application (Some 5))
      (start (failing_application (Some 5)) (new_loop example_driver ()))) = [] \<and>
   measure_calls (run_once (failing_application (Some 5)) (run_once (failing_application (Some 5))
      (start (failing_application (Some 5)) (new_loop example_driver ())))) = 1"
proof -
  let ?app = "failing_application (Some 5)"
  let ?st = "start ?app (new_loop example_driver ())"
  have sch: "scheduled ?st = (0, 1) # []" by (simp add: start_def new_loop_def)
  have r: "run_once ?app ?st
     = \<lparr>sensor = example_driver, sinks = (), scheduled = [], stopped = False,
        unhandled = [OSError], measure_calls = 1, handled = []\<rparr>"
    by (simp add: run_once_measure_raises [OF failing_measure sch])
      (simp add: start_def new_loop_def)
  show ?thesis
    by (simp add: r run_once_idle)
qed

lemma handle_data_broadcast_raises:
  assumes "webserver node = Some w" and "broadcast d w = (Some e, w')"
  shows "sensor_node_handle_data broadcast publish d node =
           (Some e, node\<lparr>webserver := Some w', broadcast_calls := broadcast_calls node @ [d]\<rparr>)"
  using assms by (simp add: sensor_node_handle_data_def)

lemma handle_data_broadcast_returns:
  assumes "webserver node = Some w" and "broadcast d w = (None, w')"
    and "publisher node = Some p" and "publish d p = (r, p')"
  shows "sensor_node_handle_data broadcast publish d node =
           (r, node\<lparr>webserver := Some w', broadcast_calls := broadcast_calls node @ [d],
                    publisher := Some p', publish_calls := publish_calls node @ [d]\<rparr>)"
  using assms by (simp add: sensor_node_handle_data_def)

text \<open>
  Claim C9, amended. In a cycle of a sensor node with both sinks configured, the sinks are
  called in sequence, the webserver first, without isolation. If \<^verbatim>\<open>broadcast\<close> raises, the
  publisher is not called with the measurement, the exception reaches the event loop,
  no further cycle is scheduled and \<^verbatim>\<open>run_forever\<close> never returns. If \<^verbatim>\<open>broadcast\<close> returns,
  both sinks have been called with the measurement; if \<^verbatim>\<open>publish\<close> then raises, no further
  cycle is scheduled either; if it returns, the next cycle is scheduled after the
  interval.
\<close>

theorem sinks_in_sequence:
  assumes "handle_data app = sensor_node_handle_data broadcast publish"
    and "sensor_measure app (sensor st) = (Inr d, sn')"
    and "scheduled st = [(dl, num)]" and "\<not> stopped st"
    and "webserver (sinks st) = Some w" and "publisher (sinks st) = Some p"
  shows "(\<forall>e w'. broadcast d w = (Some e, w') \<longrightarrow>
            broadcast_calls (sinks (run_once app st)) = broadcast_calls (sinks st) @ [d] \<and>
            publish_calls (sinks (run_once app st)) = publish_calls (sinks st) \<and>
            unhandled (run_once app st) = unhandled st @ [e] \<and>
            scheduled (run_once app st) = [] \<and> \<not> stopped (run_once app st) \<and>
            (\<forall>k. run_forever app k st = None)) \<and>
         (\<forall>w'. broadcast d w = (None, w') \<longrightarrow>
            broadcast_calls (sinks (run_once app st)) = broadcast_calls (sinks st) @ [d] \<and>
            publish_calls (sinks (run_once app st)) = publish_calls (sinks st) @ [d] \<and>
            (\<forall>e p'. publish d p = (Some e, p') \<longrightarrow>
               unhandled (run_once app st) = unhandled st @ [e] \<and>
               scheduled (run_once app st) = [] \<and> \<not> stopped (run_once app st) \<and>
               (\<forall>k. run_forever app k st = None)) \<and>
            (\<forall>p'. publish d p = (None, p') \<and> Some num \<noteq> poll app \<longrightarrow>
               unhandled (run_once app st) = unhandled st \<and>
               scheduled (run_once app st) = [(interval app, num + 1)]))"
proof -
  have sch: "scheduled st = (dl, num) # []" using assms(3) by simp
  have a: "broadcast_calls (sinks (run_once app st)) = broadcast_calls (sinks st) @ [d] \<and>
            publish_calls (sinks (run_once app st)) = publish_calls (sinks st) \<and>
            unhandled (run_once app st) = unhandled st @ [e] \<and>
            scheduled (run_once app st) = [] \<and> \<not> stopped (run_once app st) \<and>
            (\<forall>k. run_forever app k st = None)"
    if b: "broadcast d w = (Some e, w')" for e w'
  proof -
    note h = handle_data_broadcast_raises [where broadcast = broadcast and d = d
        and publish = publish, OF assms(5) b]
    have h': "handle_data app d (sinks st) = (Some e,
        (sinks st)\<lparr>webserver := Some w', broadcast_calls := broadcast_calls (sinks st) @ [d]\<rparr>)"
      using h by (simp add: assms(1))
    note r = run_once_handler_raises [OF assms(2) h' sch]
    have i: "scheduled (run_once app st) = []" "\<not> stopped (run_once app st)"
      using assms(4) by (simp_all add: r)
    have "run_forever app k st = None" for k
      by (rule run_forever_goes_idle) (rule i)+
    then show ?thesis using i by (simp add: r)
  qed
  have c: "broadcast_calls (sinks (run_once app st)) = broadcast_calls (sinks st) @ [d] \<and>
            publish_calls (sinks (run_once app st)) = publish_calls (sinks st) @ [d] \<and>
            (\<forall>e p'. publish d p = (Some e, p') \<longrightarrow>
               unhandled (run_once app st) = unhandled st @ [e] \<and>
               scheduled (run_once app st) = [] \<and> \<not> stopped (run_once app st) \<and>
               (\<forall>k. run_forever app k st = None)) \<and>
            (\<forall>p'. publish d p = (None, p') \<and> Some num \<noteq> poll app \<longrightarrow>
               unhandled (run_once app st) = unhandled st \<and>
               scheduled (run_once app st) = [(interval app, num + 1)])"
    if b: "broadcast d w = (None, w')" for w'
  proof (cases "publish d p")
    case (Pair r p')
    note h = handle_data_broadcast_returns [where broadcast = broadcast and d = d
        and publish = publish, OF assms(5) b assms(6) Pair]
    let ?sk = "(sinks st)\<lparr>webserver := Some w',
        broadcast_calls := broadcast_calls (sinks st) @ [d],
        publisher := Some p', publish_calls := publish_calls (sinks st) @ [d]\<rparr>"
    have h': "handle_data app d (sinks st) = (r, ?sk)"
      using h by (simp add: assms(1))
    show ?thesis
    proof (cases r)
      case None
      note r1 = run_once_returns [OF assms(2) h' [unfolded None] sch]
      show ?thesis using Pair None by (simp add: r1)
    next
      case (Some e)
      note r1 = run_once_handler_raises [OF assms(2) h' [unfolded Some] sch]
      have i: "scheduled (run_once app st) = []" "\<not> stopped (run_once app st)"
        using assms(4) by (simp_all add: r1)
      have "run_forever app k st = None" for k
        by (rule run_forever_goes_idle) (rule i)+
      then show ?thesis using i Pair Some by (simp add: r1)
    qed
  qed
  show ?thesis
    using a c by blast
qed

lemma mock_node_measure:
  "sensor_measure (node_application b p) (sensor st) = (Inr mock_measure, sensor st)"
  by (simp add: node_application_def mock_sensor_def)

text \<open>
  Claim C9, amended, at the mock sensor with a failing webserver, with a failing
  publisher, and with two healthy sinks.
\<close>

theorem sinks_in_sequence_witness:
  "publish_calls (sinks (run_once (node_application failing_sink healthy_sink)
      (start (node_application failing_sink healthy_sink) (new_loop () both_sinks)))) = [] \<and>
   scheduled (run_once (node_application failing_sink healthy_sink)
      (start (node_application failing_sink healthy_sink) (new_loop () both_sinks))) = [] \<and>
   broadcast_calls (sinks (run_once (node_application healthy_sink failing_sink)
      (start (node_application healthy_sink failing_sink) (new_loop () both_sinks))))
     = [mock_measure] \<and>
   publish_calls (sinks (run_once (node_application healthy_sink failing_sink)
      (start (node_application healthy_sink failing_sink) (new_loop () both_sinks))))
     = [mock_measure] \<and>
   scheduled (run_once (node_application healthy_sink failing_sink)
      (start (node_application healthy_sink failing_sink) (new_loop () both_sinks))) = [] \<and>
   scheduled (run_once (node_application healthy_sink healthy_sink)
      (start (node_application healthy_sink healthy_sink) (new_loop () both_sinks)))
     = [(2, 2)]"
proof -
  have st: "scheduled (start (node_application b p) (new_loop () both_sinks)) = [(0, 1)]"
    "\<not> stopped (start (node_application b p) (new_loop () both_sinks))"
    "webserver (sinks (start (node_application b p) (new_loop () both_sinks))) = Some ()"
    "publisher (sinks (start (node_application b p) (new_loop () both_sinks))) = Some ()"
    "broadcast_calls (sinks (start (node_application b p) (new_loop () both_sinks))) = []"
    "publish_calls (sinks (start (node_application b p) (new_loop () both_sinks))) = []"
    for b p
    by (simp_all add: start_def new_loop_def both_sinks_def)
  have hd: "handle_data (node_application b p) = sensor_node_handle_data b p" for b p
    by (simp add: node_application_def)
  have pl: "Some 1 \<noteq> poll (node_application b p)" "interval (node_application b p) = 2" for b p
    by (simp_all add: node_application_def)
  note t1 = sinks_in_sequence [OF hd mock_node_measure st(1) st(2) st(3) st(4),
      of failing_sink healthy_sink]
  note t2 = sinks_in_sequence [OF hd mock_node_measure st(1) st(2) st(3) st(4),
      of healthy_sink failing_sink]
  note t3 = sinks_in_sequence [OF hd mock_node_measure st(1) st(2) st(3) st(4),
      of healthy_sink healthy_sink]
  show ?thesis
    using t1 t2 t3 pl by (simp add: failing_sink_def healthy_sink_def st(5) st(6))
qed

text \<open>
  Claim C9 as stated fails. With a webserver sink that raises and a healthy publisher, the
  publisher has received nothing after the cycle, nothing is scheduled and the event loop
  runs on without a further measurement.
\<close>

theorem failing_sink_counterexample:
  "publish_calls (sinks (run_once (node_application failing_sink healthy_sink)
      (start (node_application failing_sink healthy_sink) (new_loop () both_sinks)))) = [] \<and>
   scheduled (run_once (node_application failing_sink healthy_sink)
      (start (node_application failing_sink healthy_sink) (new_loop () both_sinks))) = [] \<and>
   run_forever (node_application failing_sink healthy_sink) 10
      (start (node_application failing_sink healthy_sink) (new_loop () both_sinks)) = None"
proof -
  let ?app = "node_application failing_sink healthy_sink"
  let ?st = "start ?app (new_loop () both_sinks)"
  have r: "run_once ?app ?st =
      \<lparr>sensor = (),
       sinks = \<lparr>webserver = Some (), publisher = Some (),
                broadcast_calls = [mock_measure], publish_calls = []\<rparr>,
       scheduled = [], stopped = False, unhandled = [OSError], measure_calls = 1,
       handled = [mock_measure]\<rparr>"
    by (simp add: run_once_def callback_def start_def new_loop_def node_application_def
        mock_sensor_def sensor_node_handle_data_def failing_sink_def both_sinks_def)
  have "run_forever ?app 10 ?st = None"
    by (rule run_forever_goes_idle) (simp_all add: r)
  then show ?thesis by (simp add: r)
qed

end
